theory Spec2Isabelle
  imports Main "HOL-Library.Word" "HOL-Library.AList"
begin

section \<open>JavaScript values used by the cart\<close>

text \<open>
  Product identifiers and titles are JavaScript values that the code compares with
  \<^verbatim>\<open>===\<close> and tests for truthiness in \<^verbatim>\<open>a || b\<close>. Only the kinds that can reach these
  positions are modelled: \<^verbatim>\<open>undefined\<close>, \<^verbatim>\<open>null\<close>, a number and a string. Strict
  equality on them is structural equality.

  Prices and quantities are JavaScript numbers. The code only adds them, multiplies them and
  compares them with zero, always in a fixed order, so the number type is left as a type
  parameter \<open>'n\<close> with these operations and no algebraic law is assumed of them.
\<close>

datatype jsval = Undefined | Null | Num int | Str string

fun truthy :: "jsval \<Rightarrow> bool" where
  "truthy Undefined = False"
| "truthy Null = False"
| "truthy (Num n) = (n \<noteq> 0)"
| "truthy (Str s) = (s \<noteq> [])"

text \<open>The operator \<^verbatim>\<open>a || b\<close>.\<close>

definition js_or :: "jsval \<Rightarrow> jsval \<Rightarrow> jsval" where
  "js_or a b = (if truthy a then a else b)"

text \<open>
  \<^verbatim>\<open>getToken()\<close> comes from the authentication helper, which is outside the cart provider; its
  result is passed to every operation. The token is used in \<^verbatim>\<open>if (token)\<close>: absent and
  empty tokens are both falsy.
\<close>

definition tokenPresent :: "string option \<Rightarrow> bool" where
  "tokenPresent token = (case token of None \<Rightarrow> False | Some t \<Rightarrow> t \<noteq> [])"

section \<open>Cart data\<close>

text \<open>
  A product as handed to \<^verbatim>\<open>addToCart\<close>: the fields the provider reads are \<^verbatim>\<open>_id\<close>,
  \<^verbatim>\<open>id\<close>, \<^verbatim>\<open>name\<close>, \<^verbatim>\<open>title\<close> and \<^verbatim>\<open>price\<close>. A field that the object lacks is
  \<open>Undefined\<close>.
\<close>

record 'n product =
  p_underscore_id :: jsval
  p_id :: jsval
  p_name :: jsval
  p_title :: jsval
  p_price :: 'n

text \<open>
  A cart line. The field \<^verbatim>\<open>id\<close> is called \<open>ident\<close> here. Lines built by the guest
  path are \<^verbatim>\<open>{ ...product, quantity }\<close> and so carry the product's \<^verbatim>\<open>_id\<close> and
  \<^verbatim>\<open>name\<close> along; lines built by the other paths leave them undefined.
\<close>

record 'n item =
  underscore_id :: jsval
  ident :: jsval
  name :: jsval
  title :: jsval
  price :: 'n
  quantity :: 'n

text \<open>
  An element of \<^verbatim>\<open>res.data.cart.items\<close>; \<^verbatim>\<open>i.product\<close> may be missing, which
  \<^verbatim>\<open>i.product?.name\<close> turns into \<^verbatim>\<open>undefined\<close>.
\<close>

record server_product =
  sp_name :: jsval
  sp_title :: jsval

record 'n server_item =
  si_product_id :: jsval
  si_name :: jsval
  si_product :: "server_product option"
  si_price :: 'n
  si_quantity :: 'n

text \<open>
  Local storage maps keys to texts. The only texts the provider stores or reads are
  \<^verbatim>\<open>JSON.stringify\<close> of a list of cart lines, so a stored text is represented by the list
  it denotes; \<^verbatim>\<open>JSON.parse\<close> gives the list back.
\<close>

datatype 'n json_text = JsonText "'n item list"

definition JSON_stringify :: "'n item list \<Rightarrow> 'n json_text" where
  "JSON_stringify xs = JsonText xs"

fun JSON_parse :: "'n json_text \<Rightarrow> 'n item list" where
  "JSON_parse (JsonText xs) = xs"

text \<open>
  The provider's state: the two \<^verbatim>\<open>useState\<close> cells and the browser's local storage.
\<close>

record 'n cart_state =
  cartItems :: "'n item list"
  totalPrice :: 'n
  localStorage :: "string \<rightharpoonup> 'n json_text"

text \<open>
  The outcome of an HTTP call whose body is not read, and a request that has been sent and
  whose \<^verbatim>\<open>.then\<close>/\<^verbatim>\<open>.catch\<close> has not run yet. The handlers keep \<^verbatim>\<open>prevItems\<close> for the
  \<^verbatim>\<open>.catch\<close>.
\<close>

datatype reply = Resolved | Rejected

datatype request = DeleteItem jsval | PutItem jsval | DeleteCart

record 'n pending =
  sent :: request
  prevItems :: "'n item list"

section \<open>Cart operations\<close>

text \<open>
  Every handler is a closure of one render: where the source reads \<^verbatim>\<open>cartItems\<close> it reads
  the list of the render that created the handler, not the current state. That list is the
  argument \<open>closure\<close>; a handler called from the latest render has
  \<open>closure = cartItems s\<close>. A state setter with a value overwrites the cell, a setter with a
  function (\<^verbatim>\<open>setCartItems(prev => ...)\<close>) reads the current cell.
\<close>

text \<open>The expression \<^verbatim>\<open>items.reduce((total, item) => total + (item.price * item.quantity), 0)\<close>.\<close>

definition reduceTotal :: "('n::{zero,plus,times}) item list \<Rightarrow> 'n" where
  "reduceTotal xs = foldl (\<lambda>total it. total + (price it * quantity it)) 0 xs"

definition updateTotalPrice :: "('n::{zero,plus,times}) item list \<Rightarrow> 'n cart_state \<Rightarrow> 'n cart_state" where
  "updateTotalPrice closure s = s\<lparr>totalPrice := reduceTotal closure\<rparr>"

text \<open>
  \<^verbatim>\<open>removeFromCart\<close>: the synchronous part, returning the new state and the request left
  pending, if any.
\<close>

definition removeFromCart ::
  "string option \<Rightarrow> ('n::{zero,plus,times}) item list \<Rightarrow> jsval \<Rightarrow> 'n cart_state
    \<Rightarrow> 'n cart_state \<times> 'n pending option" where
  "removeFromCart token closure productId s =
     (let prevItems = closure;
          updatedItems = filter (\<lambda>it. ident it \<noteq> productId) prevItems;
          s1 = s\<lparr>cartItems := updatedItems, totalPrice := reduceTotal updatedItems\<rparr>
      in if tokenPresent token
         then (s1, Some \<lparr>sent = DeleteItem productId, prevItems = prevItems\<rparr>)
         else (s1, None))"

text \<open>
  \<^verbatim>\<open>updateQuantity\<close>: a quantity that is not positive is handed to \<^verbatim>\<open>removeFromCart\<close>.
\<close>

definition updateQuantity ::
  "string option \<Rightarrow> ('n::{zero,plus,times,ord}) item list \<Rightarrow> jsval \<Rightarrow> 'n \<Rightarrow> 'n cart_state
    \<Rightarrow> 'n cart_state \<times> 'n pending option" where
  "updateQuantity token closure productId newQuantity s =
     (if newQuantity \<le> 0 then removeFromCart token closure productId s
      else
        let prevItems = closure;
            updatedItems =
              map (\<lambda>it. if ident it = productId then it\<lparr>quantity := newQuantity\<rparr> else it) prevItems;
            s1 = s\<lparr>cartItems := updatedItems, totalPrice := reduceTotal updatedItems\<rparr>
        in if tokenPresent token
           then (s1, Some \<lparr>sent = PutItem productId, prevItems = prevItems\<rparr>)
           else (s1, None))"

text \<open>
  \<^verbatim>\<open>clearCart\<close>: with a token the request is sent and the function returns; without one
  the key is removed from local storage.
\<close>

definition clearCart ::
  "string option \<Rightarrow> ('n::{zero,plus,times}) item list \<Rightarrow> 'n cart_state
    \<Rightarrow> 'n cart_state \<times> 'n pending option" where
  "clearCart token closure s =
     (let prevItems = closure;
          s1 = s\<lparr>cartItems := [], totalPrice := 0\<rparr>
      in if tokenPresent token
         then (s1, Some \<lparr>sent = DeleteCart, prevItems = prevItems\<rparr>)
         else (s1\<lparr>localStorage := (localStorage s1)(''cartItems'' := None)\<rparr>, None))"

text \<open>
  The \<^verbatim>\<open>.then\<close> and \<^verbatim>\<open>.catch\<close> of the three requests. The three \<^verbatim>\<open>.then\<close> handlers only
  log; the three \<^verbatim>\<open>.catch\<close> handlers are the same two statements,
  \<^verbatim>\<open>setCartItems(prevItems)\<close> and \<^verbatim>\<open>setTotalPrice(prevItems.reduce(...))\<close>. The state \<open>s\<close>
  is the one in which the reply arrives.
\<close>

definition settle ::
  "reply \<Rightarrow> ('n::{zero,plus,times}) pending \<Rightarrow> 'n cart_state \<Rightarrow> 'n cart_state" where
  "settle r p s =
     (case r of
        Resolved \<Rightarrow> s
      | Rejected \<Rightarrow> s\<lparr>cartItems := prevItems p, totalPrice := reduceTotal (prevItems p)\<rparr>)"

text \<open>
  \<^verbatim>\<open>addToCart\<close>. The local path (guests, and the fallback after a failed request) looks the
  product up by \<^verbatim>\<open>product.id\<close> in the closure's list.
\<close>

definition spreadProduct :: "'n product \<Rightarrow> 'n \<Rightarrow> 'n item" where
  "spreadProduct product q =
     \<lparr>underscore_id = p_underscore_id product, ident = p_id product, name = p_name product,
      title = p_title product, price = p_price product, quantity = q\<rparr>"

definition addToCart_local ::
  "string option \<Rightarrow> ('n::{zero,plus,times,ord}) item list \<Rightarrow> 'n product \<Rightarrow> 'n \<Rightarrow> 'n cart_state
    \<Rightarrow> 'n cart_state \<times> 'n pending option" where
  "addToCart_local token closure product q s =
     (case find (\<lambda>it. ident it = p_id product) closure of
        Some existingItem \<Rightarrow>
          (let newQuantity = quantity existingItem + q
           in if newQuantity \<le> 0
              then (let (s1, pend) = removeFromCart token closure (p_id product) s
                    in (updateTotalPrice closure s1, pend))
              else (updateTotalPrice closure
                      (s\<lparr>cartItems :=
                           map (\<lambda>it. if ident it = p_id product
                                      then it\<lparr>quantity := newQuantity\<rparr> else it) (cartItems s)\<rparr>),
                    None))
      | None \<Rightarrow>
          (updateTotalPrice closure (s\<lparr>cartItems := cartItems s @ [spreadProduct product q]\<rparr>),
           None))"

text \<open>The path taken after \<^verbatim>\<open>api.post\<close> has succeeded.\<close>

definition addToCart_posted ::
  "('n::{zero,plus,times}) item list \<Rightarrow> 'n product \<Rightarrow> 'n \<Rightarrow> 'n cart_state \<Rightarrow> 'n cart_state" where
  "addToCart_posted closure product q s =
     (let pid = js_or (p_underscore_id product) (p_id product)
      in case find (\<lambda>it. ident it = pid) closure of
           Some existingItem \<Rightarrow>
             (let newQuantity = quantity existingItem + q
              in updateTotalPrice closure
                   (s\<lparr>cartItems :=
                        map (\<lambda>it. if ident it = pid then it\<lparr>quantity := newQuantity\<rparr> else it)
                          (cartItems s)\<rparr>))
         | None \<Rightarrow>
             updateTotalPrice closure
               (s\<lparr>cartItems := cartItems s @
                    [\<lparr>underscore_id = Undefined, ident = pid, name = Undefined,
                      title = js_or (p_name product) (p_title product),
                      price = p_price product, quantity = q\<rparr>]\<rparr>))"

text \<open>
  With a token \<^verbatim>\<open>addToCart\<close> awaits \<^verbatim>\<open>api.post\<close> before it touches the state, so the
  reply is an argument and \<open>s\<close> is the state in which the function resumes. The quantity
  defaults to 1.
\<close>

definition addToCart ::
  "string option \<Rightarrow> ('n::{zero,one,plus,times,ord}) item list \<Rightarrow> 'n product \<Rightarrow> 'n option \<Rightarrow> reply
    \<Rightarrow> 'n cart_state \<Rightarrow> 'n cart_state \<times> 'n pending option" where
  "addToCart token closure product quantity_arg post_reply s =
     (let q = (case quantity_arg of None \<Rightarrow> 1 | Some n \<Rightarrow> n)
      in if tokenPresent token
         then (case post_reply of
                 Resolved \<Rightarrow> (addToCart_posted closure product q s, None)
               | Rejected \<Rightarrow> addToCart_local token closure product q s)
         else addToCart_local token closure product q s)"

text \<open>
  \<^verbatim>\<open>checkout\<close>: the promise's outcome (\<open>Inl\<close> the rejection), and the state after the
  timer has run \<^verbatim>\<open>clearCart()\<close>.
\<close>

record checkout_result =
  success :: bool
  message :: string

definition checkout ::
  "string option \<Rightarrow> ('n::{zero,plus,times}) item list \<Rightarrow> 'n cart_state
    \<Rightarrow> (string + checkout_result) \<times> 'n cart_state \<times> 'n pending option" where
  "checkout token closure s =
     (if length closure = 0 then (Inl ''Cart is empty'', s, None)
      else (Inr \<lparr>success = True, message = ''Checkout successful!''\<rparr>, clearCart token closure s))"

section \<open>Effects\<close>

text \<open>
  The effect on \<^verbatim>\<open>[cartItems]\<close> writes the list of its render to local storage and calls
  that render's \<^verbatim>\<open>updateTotalPrice\<close>.
\<close>

definition saveEffect :: "('n::{zero,plus,times}) item list \<Rightarrow> 'n cart_state \<Rightarrow> 'n cart_state" where
  "saveEffect closure s =
     updateTotalPrice closure
       (s\<lparr>localStorage := (localStorage s)(''cartItems'' \<mapsto> JSON_stringify closure)\<rparr>)"

text \<open>
  After a handler has set \<^verbatim>\<open>cartItems\<close> the provider renders again and the effect runs in
  the new render, whose list is the current one.
\<close>

definition rerender :: "('n::{zero,plus,times}) cart_state \<Rightarrow> 'n cart_state" where
  "rerender s = saveEffect (cartItems s) s"

text \<open>
  Mounting. The first render has the initial cells \<^verbatim>\<open>[]\<close> and \<^verbatim>\<open>0\<close>. Its effects run in
  order: the first reads the saved cart and sets \<^verbatim>\<open>cartItems\<close> to it, and starts
  \<^verbatim>\<open>syncFromServer\<close>, which sends its request and waits; the second is the effect on
  \<^verbatim>\<open>[cartItems]\<close> with the first render's empty list. When a saved cart was set, the provider
  renders again and the second effect runs with it.
\<close>

definition initialState :: "(string \<rightharpoonup> ('n::zero) json_text) \<Rightarrow> 'n cart_state" where
  "initialState store = \<lparr>cartItems = [], totalPrice = 0, localStorage = store\<rparr>"

definition mount :: "(string \<rightharpoonup> ('n::{zero,plus,times}) json_text) \<Rightarrow> 'n cart_state" where
  "mount store =
     (let s0 = initialState store;
          closure = cartItems s0;
          savedCart = localStorage s0 ''cartItems'';
          s1 = (case savedCart of
                  Some text \<Rightarrow> s0\<lparr>cartItems := JSON_parse text\<rparr>
                | None \<Rightarrow> s0);
          s2 = saveEffect closure s1
      in case savedCart of Some text \<Rightarrow> rerender s2 | None \<Rightarrow> s2)"

text \<open>
  \<^verbatim>\<open>syncFromServer\<close> after its \<^verbatim>\<open>await\<close>. The reply is a rejection, or a response whose
  \<^verbatim>\<open>res?.data?.cart?.items\<close> is either missing or a list. The state \<open>s\<close> is the one in which
  the reply arrives; without a token no request is sent.
\<close>

datatype 'n cart_reply = GetRejected | GetResolved "'n server_item list option"

definition fromServer :: "'n server_item \<Rightarrow> 'n item" where
  "fromServer i =
     \<lparr>underscore_id = Undefined,
      ident = si_product_id i,
      name = Undefined,
      title = js_or (js_or (js_or (si_name i)
                (case si_product i of None \<Rightarrow> Undefined | Some p \<Rightarrow> sp_name p))
                (case si_product i of None \<Rightarrow> Undefined | Some p \<Rightarrow> sp_title p))
                (Str []),
      price = si_price i,
      quantity = si_quantity i\<rparr>"

definition syncFromServer ::
  "string option \<Rightarrow> 'n cart_reply \<Rightarrow> 'n cart_state \<Rightarrow> 'n cart_state" where
  "syncFromServer token r s =
     (if \<not> tokenPresent token then s
      else case r of
             GetRejected \<Rightarrow> s
           | GetResolved None \<Rightarrow> s
           | GetResolved (Some items) \<Rightarrow>
               (let serverItems = map fromServer items;
                    localCart = localStorage s ''cartItems''
                in case localCart of
                     None \<Rightarrow> s\<lparr>cartItems := serverItems\<rparr>
                   | Some text \<Rightarrow>
                       if length (JSON_parse text) = 0 then s\<lparr>cartItems := serverItems\<rparr> else s))"

section \<open>States the provider can be in\<close>

text \<open>
  The states in which the provider rests between events. After an event that calls
  \<^verbatim>\<open>setCartItems\<close> with a new array the provider renders again and the effect on
  \<^verbatim>\<open>[cartItems]\<close> runs. A handler may belong to any earlier render, so its closure is
  arbitrary here, and so is the list kept by a request that fails. A \<^verbatim>\<open>.catch\<close> that sets
  the array the cell already holds causes no render of its own; the last rule covers it.
\<close>

inductive reachable :: "('n::{zero,one,plus,times,ord}) cart_state \<Rightarrow> bool" where
  mounted: "reachable (mount store)"
| synced: "reachable s \<Longrightarrow> reachable (rerender (syncFromServer token r s))"
| added: "reachable s \<Longrightarrow> reachable (rerender (fst (addToCart token closure product q r s)))"
| removed: "reachable s \<Longrightarrow> reachable (rerender (fst (removeFromCart token closure productId s)))"
| updated:
    "reachable s \<Longrightarrow> reachable (rerender (fst (updateQuantity token closure productId n s)))"
| cleared: "reachable s \<Longrightarrow> reachable (rerender (fst (clearCart token closure s)))"
| checked_out: "reachable s \<Longrightarrow> reachable (rerender (fst (snd (checkout token closure s))))"
| reverted: "reachable s \<Longrightarrow> reachable (rerender (settle Rejected p s))"
| reverted_same: "reachable s \<Longrightarrow> cartItems s = prevItems p \<Longrightarrow> reachable (settle Rejected p s)"

text \<open>The state is at rest: the total and the stored text both follow the list.\<close>

definition settled :: "('n::{zero,plus,times}) cart_state \<Rightarrow> bool" where
  "settled s \<longleftrightarrow>
     totalPrice s = reduceTotal (cartItems s) \<and>
     localStorage s ''cartItems'' = Some (JSON_stringify (cartItems s))"

text \<open>
  An operation run to its end when the server rejects the request: the render after the
  optimistic update, then the \<^verbatim>\<open>.catch\<close>, then the render after it.
\<close>

definition afterRejection ::
  "('n::{zero,plus,times}) cart_state \<times> 'n pending option \<Rightarrow> 'n cart_state" where
  "afterRejection r =
     (case snd r of
        None \<Rightarrow> rerender (fst r)
      | Some p \<Rightarrow> rerender (settle Rejected p (rerender (fst r))))"

section \<open>The change-password form\<close>

text \<open>
  The values of the form fields are JavaScript strings: sequences of 16-bit code units, which
  is what \<^verbatim>\<open>.length\<close> counts and what a regular expression without the \<^verbatim>\<open>u\<close> flag
  matches on. The objects \<^verbatim>\<open>formData\<close> and \<^verbatim>\<open>errors\<close> are association lists from
  property names to values, in insertion order; messages are ASCII literals.
\<close>

type_synonym jsstring = "16 word list"

record form_state =
  f_loading :: bool
  f_success :: string
  f_error :: string
  formData :: "(string \<times> jsstring) list"
  errors :: "(string \<times> string) list"

text \<open>The initial cells of the component.\<close>

definition initialForm :: form_state where
  "initialForm =
     \<lparr>f_loading = False, f_success = [], f_error = [],
      formData = [(''currentPassword'', []), (''newPassword'', []), (''confirmPassword'', [])],
      errors = []\<rparr>"

text \<open>
  The pattern \<^verbatim>\<open>/(?=.*[a-z])(?=.*[A-Z])(?=.*\d)/\<close>. Without the \<^verbatim>\<open>s\<close> flag the dot matches
  every code unit except the line terminators U+000A, U+000D, U+2028 and U+2029. A
  lookahead \<^verbatim>\<open>(?=.*[c])\<close> succeeds at a position when a code unit of the class follows after
  any number of code units that the dot matches; \<^verbatim>\<open>test\<close> tries every start position.
\<close>

definition isLineTerminator :: "16 word \<Rightarrow> bool" where
  "isLineTerminator c \<longleftrightarrow> c = 0x000A \<or> c = 0x000D \<or> c = 0x2028 \<or> c = 0x2029"

definition isLower :: "16 word \<Rightarrow> bool" where
  "isLower c \<longleftrightarrow> 0x61 \<le> c \<and> c \<le> 0x7A"

definition isUpper :: "16 word \<Rightarrow> bool" where
  "isUpper c \<longleftrightarrow> 0x41 \<le> c \<and> c \<le> 0x5A"

definition isDigit :: "16 word \<Rightarrow> bool" where
  "isDigit c \<longleftrightarrow> 0x30 \<le> c \<and> c \<le> 0x39"

fun lookahead :: "(16 word \<Rightarrow> bool) \<Rightarrow> jsstring \<Rightarrow> bool" where
  "lookahead cls [] = False"
| "lookahead cls (c # cs) = (cls c \<or> (\<not> isLineTerminator c \<and> lookahead cls cs))"

fun pattern_test :: "jsstring \<Rightarrow> bool" where
  "pattern_test [] = False"
| "pattern_test (c # cs) =
     ((lookahead isLower (c # cs) \<and> lookahead isUpper (c # cs) \<and> lookahead isDigit (c # cs))
      \<or> pattern_test cs)"

text \<open>\<^verbatim>\<open>!value\<close> for a field that is a string or missing.\<close>

definition blank :: "jsstring option \<Rightarrow> bool" where
  "blank v = (case v of None \<Rightarrow> True | Some t \<Rightarrow> t = [])"

text \<open>
  \<^verbatim>\<open>validateForm\<close> returns whether \<^verbatim>\<open>newErrors\<close> has no key, and sets \<^verbatim>\<open>errors\<close> to it.
\<close>

definition validateForm :: "form_state \<Rightarrow> bool \<times> form_state" where
  "validateForm s =
     (let currentPassword = map_of (formData s) ''currentPassword'';
          newPassword = map_of (formData s) ''newPassword'';
          confirmPassword = map_of (formData s) ''confirmPassword'';
          e0 = [];
          e1 = (if blank currentPassword
                then AList.update ''currentPassword'' ''Current password is required'' e0
                else e0);
          e2 = (if blank newPassword
                then AList.update ''newPassword'' ''New password is required'' e1
                else if length (the newPassword) < 8
                then AList.update ''newPassword''
                       ''Password must be at least 8 characters long'' e1
                else if \<not> pattern_test (the newPassword)
                then AList.update ''newPassword''
                       ''Password must contain at least one uppercase letter, one lowercase letter, and one number'' e1
                else e1);
          e3 = (if blank confirmPassword
                then AList.update ''confirmPassword'' ''Please confirm your new password'' e2
                else if newPassword \<noteq> confirmPassword
                then AList.update ''confirmPassword'' ''Passwords do not match'' e2
                else e2)
      in (length (map fst e3) = 0, s\<lparr>errors := e3\<rparr>))"

text \<open>
  \<^verbatim>\<open>handleChange\<close> with \<^verbatim>\<open>e.target.name\<close> and \<^verbatim>\<open>e.target.value\<close>. The test
  \<^verbatim>\<open>errors[name]\<close> holds for a recorded message that is not empty.
\<close>

definition handleChange :: "string \<Rightarrow> jsstring \<Rightarrow> form_state \<Rightarrow> form_state" where
  "handleChange field v s =
     (let s1 = s\<lparr>formData := AList.update field v (formData s)\<rparr>
      in case map_of (errors s) field of
           None \<Rightarrow> s1
         | Some msg \<Rightarrow>
             if msg \<noteq> [] then s1\<lparr>errors := AList.update field [] (errors s1)\<rparr> else s1)"

text \<open>
  The promise awaited in \<^verbatim>\<open>handleSubmit\<close> is \<^verbatim>\<open>new Promise(resolve => setTimeout(resolve, 1500))\<close>:
  its executor has no way to reject. No request is made; the call to the server is a comment
  in the source.
\<close>

definition simulatedChange :: reply where
  "simulatedChange = Resolved"

text \<open>
  \<^verbatim>\<open>handleSubmit\<close>, with the \<^verbatim>\<open>try\<close>, \<^verbatim>\<open>catch\<close> and \<^verbatim>\<open>finally\<close> blocks as the source has
  them. The redirect that the success branch schedules is not part of the state.
\<close>

definition handleSubmit :: "form_state \<Rightarrow> form_state" where
  "handleSubmit s =
     (let s1 = s\<lparr>f_error := [], f_success := []\<rparr>;
          (ok, s2) = validateForm s1
      in if \<not> ok then s2
         else
           let s3 = s2\<lparr>f_loading := True\<rparr>;
               s4 = (case simulatedChange of
                       Resolved \<Rightarrow>
                         s3\<lparr>f_success := ''Password changed successfully!'',
                            formData := [(''currentPassword'', []), (''newPassword'', []),
                                         (''confirmPassword'', [])]\<rparr>
                     | Rejected \<Rightarrow>
                         s3\<lparr>f_error :=
                              ''Failed to change password. Please check your current password and try again.''\<rparr>)
           in s4\<lparr>f_loading := False\<rparr>)"

section \<open>Example data\<close>

text \<open>Concrete carts, products and passwords on which the theorems below are instantiated.\<close>

definition exampleItems :: "int item list" where
  "exampleItems =
     [\<lparr>underscore_id = Undefined, ident = Num 1, name = Undefined, title = Str ''Cable'',
       price = 250, quantity = 2\<rparr>,
      \<lparr>underscore_id = Undefined, ident = Num 2, name = Undefined, title = Str ''Charger'',
       price = 900, quantity = 1\<rparr>]"

definition exampleCart :: "int cart_state" where
  "exampleCart =
     \<lparr>cartItems = exampleItems, totalPrice = 1400,
      localStorage = [''cartItems'' \<mapsto> JSON_stringify exampleItems]\<rparr>"

definition exampleServerItems :: "int server_item list" where
  "exampleServerItems =
     [\<lparr>si_product_id = Num 7, si_name = Undefined,
       si_product = Some \<lparr>sp_name = Str ''Cover'', sp_title = Undefined\<rparr>,
       si_price = 120, si_quantity = 3\<rparr>]"

definition exampleProduct :: "int product" where
  "exampleProduct =
     \<lparr>p_underscore_id = Undefined, p_id = Num 1, p_name = Undefined, p_title = Str ''Cable'',
      p_price = 250\<rparr>"


text \<open>
  The password \<^verbatim>\<open>abcdefgh\<close>, U+2028 LINE SEPARATOR, \<^verbatim>\<open>A1\<close>; and the password
  \<^verbatim>\<open>Secret123\<close>.
\<close>

definition trickyPassword :: jsstring where
  "trickyPassword = [0x61, 0x62, 0x63, 0x64, 0x65, 0x66, 0x67, 0x68, 0x2028, 0x41, 0x31]"

definition goodPassword :: jsstring where
  "goodPassword = [0x53, 0x65, 0x63, 0x72, 0x65, 0x74, 0x31, 0x32, 0x33]"

definition filledForm :: "jsstring \<Rightarrow> jsstring \<Rightarrow> jsstring \<Rightarrow> form_state" where
  "filledForm cur new conf =
     initialForm\<lparr>formData := [(''currentPassword'', cur), (''newPassword'', new),
                               (''confirmPassword'', conf)]\<rparr>"

section \<open>Facts about the cart operations\<close>

text \<open>
  In an ordinary semiring the fold of \<open>reduceTotal\<close> is the sum of price times quantity over
  the list.
\<close>

lemma foldl_total:
  "foldl (\<lambda>total it. total + (price it * quantity it)) a xs
     = (a::'n::semiring_0) + sum_list (map (\<lambda>it. price it * quantity it) xs)"
  by (induction xs arbitrary: a) (simp_all add: add.assoc)

lemma reduceTotal_sum_list:
  "reduceTotal xs = sum_list (map (\<lambda>it. price it * quantity it) (xs::('n::semiring_0) item list))"
  by (simp add: reduceTotal_def foldl_total)

lemma fst_removeFromCart:
  "fst (removeFromCart token closure productId s) =
     s\<lparr>cartItems := filter (\<lambda>it. ident it \<noteq> productId) closure,
       totalPrice := reduceTotal (filter (\<lambda>it. ident it \<noteq> productId) closure)\<rparr>"
  by (simp add: removeFromCart_def Let_def)

lemma snd_removeFromCart:
  "snd (removeFromCart token closure productId s) =
     (if tokenPresent token then Some \<lparr>sent = DeleteItem productId, prevItems = closure\<rparr> else None)"
  by (simp add: removeFromCart_def Let_def)

lemma fst_updateQuantity:
  "fst (updateQuantity token closure productId n s) =
     (if n \<le> 0 then fst (removeFromCart token closure productId s)
      else s\<lparr>cartItems := map (\<lambda>it. if ident it = productId then it\<lparr>quantity := n\<rparr> else it) closure,
             totalPrice := reduceTotal
               (map (\<lambda>it. if ident it = productId then it\<lparr>quantity := n\<rparr> else it) closure)\<rparr>)"
  by (simp add: updateQuantity_def Let_def)

lemma snd_updateQuantity:
  "snd (updateQuantity token closure productId n s) =
     (if tokenPresent token
      then Some \<lparr>sent = (if n \<le> 0 then DeleteItem productId else PutItem productId),
                 prevItems = closure\<rparr>
      else None)"
  by (simp add: updateQuantity_def snd_removeFromCart Let_def)

lemma fst_clearCart:
  "fst (clearCart token closure s) =
     (if tokenPresent token then s\<lparr>cartItems := [], totalPrice := 0\<rparr>
      else s\<lparr>cartItems := [], totalPrice := 0,
             localStorage := (localStorage s)(''cartItems'' := None)\<rparr>)"
  by (simp add: clearCart_def Let_def)

lemma snd_clearCart:
  "snd (clearCart token closure s) =
     (if tokenPresent token then Some \<lparr>sent = DeleteCart, prevItems = closure\<rparr> else None)"
  by (simp add: clearCart_def Let_def)

lemma rerender_simps:
  "cartItems (rerender s) = cartItems s"
  "totalPrice (rerender s) = reduceTotal (cartItems s)"
  "localStorage (rerender s) = (localStorage s)(''cartItems'' \<mapsto> JSON_stringify (cartItems s))"
  by (simp_all add: rerender_def saveEffect_def updateTotalPrice_def)

lemma settled_rerender: "settled (rerender s)"
  by (simp add: settled_def rerender_simps)

lemma rerender_settled: "settled s \<Longrightarrow> rerender s = s"
  by (cases s) (auto simp add: settled_def rerender_def saveEffect_def updateTotalPrice_def)

lemma settle_Rejected_simps:
  "cartItems (settle Rejected p s) = prevItems p"
  "totalPrice (settle Rejected p s) = reduceTotal (prevItems p)"
  "localStorage (settle Rejected p s) = localStorage s"
  by (simp_all add: settle_def)

text \<open>
  The \<^verbatim>\<open>.catch\<close> of a request sent from state \<open>s\<close> restores the list of \<open>s\<close> in whatever
  state the rejection arrives.
\<close>

lemma settle_Rejected_restores:
  "cartItems (settle Rejected \<lparr>sent = rq, prevItems = cartItems s\<rparr> s') = cartItems s \<and>
   totalPrice (settle Rejected \<lparr>sent = rq, prevItems = cartItems s\<rparr> s') = reduceTotal (cartItems s)"
  by (simp add: settle_def)

lemma afterRejection_fields:
  assumes "snd r = Some p"
  shows "cartItems (afterRejection r) = prevItems p"
    and "totalPrice (afterRejection r) = reduceTotal (prevItems p)"
    and "localStorage (afterRejection r) ''cartItems'' = Some (JSON_stringify (prevItems p))"
  using assms by (simp_all add: afterRejection_def rerender_simps settle_Rejected_simps)

lemma cart_state_eqI:
  "cartItems a = cartItems b \<Longrightarrow> totalPrice a = totalPrice b \<Longrightarrow> localStorage a = localStorage b
    \<Longrightarrow> (a::'n cart_state) = b"
  by simp

lemma afterRejection_settled:
  assumes "snd r = Some p" and "prevItems p = cartItems s" and "settled s"
    and "localStorage (fst r) = localStorage s"
  shows "afterRejection r = s"
proof (rule cart_state_eqI)
  show "cartItems (afterRejection r) = cartItems s"
    using assms by (simp add: afterRejection_fields)
  show "totalPrice (afterRejection r) = totalPrice s"
    using assms by (simp add: afterRejection_fields settled_def)
  have "localStorage (afterRejection r) = (localStorage s)(''cartItems'' \<mapsto> JSON_stringify (cartItems s))"
    using assms by (simp add: afterRejection_def rerender_simps settle_Rejected_simps)
  also have "\<dots> = localStorage s"
    using assms(3) by (auto simp add: settled_def)
  finally show "localStorage (afterRejection r) = localStorage s" .
qed

lemma fst_addToCart_local_remove:
  assumes "find (\<lambda>it. ident it = p_id product) closure = Some e" and "quantity e + q \<le> 0"
  shows "fst (addToCart_local token closure product q s) =
           updateTotalPrice closure (fst (removeFromCart token closure (p_id product) s))"
    and "snd (addToCart_local token closure product q s) =
           snd (removeFromCart token closure (p_id product) s)"
  using assms by (simp_all add: addToCart_local_def Let_def split: prod.splits)

lemma mount_simps:
  "cartItems (mount store) = (case store ''cartItems'' of None \<Rightarrow> [] | Some t \<Rightarrow> JSON_parse t)"
  "totalPrice (mount store) = reduceTotal (cartItems (mount store))"
  "localStorage (mount store) = store(''cartItems'' \<mapsto> JSON_stringify (cartItems (mount store)))"
  by (simp_all add: mount_def initialState_def Let_def rerender_def saveEffect_def
        updateTotalPrice_def reduceTotal_def split: option.splits)

lemma settled_mount: "settled (mount store)"
  by (simp add: settled_def mount_simps)

lemma syncFromServer_cases:
  "syncFromServer token r s =
     (case r of
        GetResolved (Some items) \<Rightarrow>
          if tokenPresent token \<and>
             (case localStorage s ''cartItems'' of None \<Rightarrow> True | Some t \<Rightarrow> JSON_parse t = [])
          then s\<lparr>cartItems := map fromServer items\<rparr> else s
      | _ \<Rightarrow> s)"
  by (simp add: syncFromServer_def Let_def split: cart_reply.splits option.splits)

text \<open>
  Every state in which the provider rests is settled.
\<close>

lemma reachable_settled: "reachable s \<Longrightarrow> settled s"
proof (induction rule: reachable.induct)
  case (mounted store)
  show ?case by (rule settled_mount)
next
  case (reverted_same s p)
  then show ?case by (simp add: settled_def settle_Rejected_simps)
qed (rule settled_rerender)+

lemma settled_exampleCart: "settled exampleCart"
  by (simp add: settled_def exampleCart_def exampleItems_def reduceTotal_def)

lemma tokenPresent_jwt: "tokenPresent (Some ''jwt'')"
  by (simp add: tokenPresent_def)

text \<open>
  \<^verbatim>\<open>removeFromCart\<close>, \<^verbatim>\<open>updateQuantity\<close> and \<^verbatim>\<open>clearCart\<close> set the total from the list
  they set, whatever the closure and the token.
\<close>

lemma handlers_set_own_total:
  "totalPrice (fst (removeFromCart token closure productId s))
     = reduceTotal (cartItems (fst (removeFromCart token closure productId s))) \<and>
   totalPrice (fst (updateQuantity token closure productId n s))
     = reduceTotal (cartItems (fst (updateQuantity token closure productId n s))) \<and>
   totalPrice (fst (clearCart token closure s))
     = reduceTotal (cartItems (fst (clearCart token closure s)))"
  by (simp add: fst_removeFromCart fst_updateQuantity fst_clearCart reduceTotal_def)

text \<open>
  Inside \<^verbatim>\<open>addToCart\<close> the call \<^verbatim>\<open>updateTotalPrice()\<close> reads the closure's list, which does
  not contain the line just added: until the effect on \<^verbatim>\<open>[cartItems]\<close> has run, the total
  is that of the old list.
\<close>

lemma addToCart_total_before_render:
  assumes "\<not> tokenPresent token" and "find (\<lambda>it. ident it = p_id product) (cartItems s) = None"
  shows "cartItems (fst (addToCart token (cartItems s) product (Some q) r s))
           = cartItems s @ [spreadProduct product q] \<and>
         totalPrice (fst (addToCart token (cartItems s) product (Some q) r s))
           = reduceTotal (cartItems s)"
  using assms by (simp add: addToCart_def addToCart_local_def updateTotalPrice_def)

section \<open>Facts about the form\<close>

lemma lookahead_no_terminator:
  "\<forall>c \<in> set t. \<not> isLineTerminator c \<Longrightarrow> lookahead cls t \<longleftrightarrow> (\<exists>c \<in> set t. cls c)"
  by (induction t) auto

lemma lookahead_imp_member: "lookahead cls t \<Longrightarrow> \<exists>c \<in> set t. cls c"
  by (induction t) auto

lemma pattern_test_imp_members:
  "pattern_test t \<Longrightarrow> (\<exists>c \<in> set t. isLower c) \<and> (\<exists>c \<in> set t. isUpper c) \<and> (\<exists>c \<in> set t. isDigit c)"
proof (induction t)
  case Nil
  then show ?case by simp
next
  case (Cons c cs)
  from Cons.prems consider
    (here) "lookahead isLower (c # cs)" "lookahead isUpper (c # cs)" "lookahead isDigit (c # cs)"
    | (later) "pattern_test cs" by auto
  then show ?case
  proof cases
    case here
    then show ?thesis by (blast dest: lookahead_imp_member)
  next
    case later
    with Cons.IH show ?thesis by auto
  qed
qed

lemma pattern_test_no_terminator:
  assumes "\<forall>c \<in> set t. \<not> isLineTerminator c"
  shows "pattern_test t \<longleftrightarrow>
           (\<exists>c \<in> set t. isLower c) \<and> (\<exists>c \<in> set t. isUpper c) \<and> (\<exists>c \<in> set t. isDigit c)"
proof
  assume "pattern_test t"
  then show "(\<exists>c \<in> set t. isLower c) \<and> (\<exists>c \<in> set t. isUpper c) \<and> (\<exists>c \<in> set t. isDigit c)"
    by (rule pattern_test_imp_members)
next
  assume r: "(\<exists>c \<in> set t. isLower c) \<and> (\<exists>c \<in> set t. isUpper c) \<and> (\<exists>c \<in> set t. isDigit c)"
  then obtain c cs where t: "t = c # cs" by (cases t) auto
  from r assms have "lookahead isLower t \<and> lookahead isUpper t \<and> lookahead isDigit t"
    by (simp add: lookahead_no_terminator)
  then show "pattern_test t" by (simp add: t)
qed

lemma validateForm_ok:
  "fst (validateForm s) \<longleftrightarrow>
     \<not> blank (map_of (formData s) ''currentPassword'') \<and>
     \<not> blank (map_of (formData s) ''newPassword'') \<and>
     8 \<le> length (the (map_of (formData s) ''newPassword'')) \<and>
     pattern_test (the (map_of (formData s) ''newPassword'')) \<and>
     \<not> blank (map_of (formData s) ''confirmPassword'') \<and>
     map_of (formData s) ''newPassword'' = map_of (formData s) ''confirmPassword''"
  by (auto simp add: validateForm_def Let_def)

lemma validateForm_errors_empty: "fst (validateForm s) \<longleftrightarrow> errors (snd (validateForm s)) = []"
  by (auto simp add: validateForm_def Let_def)

text \<open>
  For a new password without line terminators \<^verbatim>\<open>validateForm\<close> succeeds exactly when the
  current password is not empty, the new password has at least 8 code units with a lowercase
  letter, an uppercase letter and a digit among them, and the confirmation is not empty and
  equals it.
\<close>

lemma validateForm_no_terminator:
  assumes "map_of (formData s) ''currentPassword'' = Some cur"
    and "map_of (formData s) ''newPassword'' = Some new"
    and "map_of (formData s) ''confirmPassword'' = Some conf"
    and "\<forall>c \<in> set new. \<not> isLineTerminator c"
  shows "fst (validateForm s) \<longleftrightarrow>
           cur \<noteq> [] \<and> new \<noteq> [] \<and> 8 \<le> length new \<and>
           (\<exists>c \<in> set new. isLower c) \<and> (\<exists>c \<in> set new. isUpper c) \<and> (\<exists>c \<in> set new. isDigit c) \<and>
           conf \<noteq> [] \<and> conf = new"
  using assms by (auto simp add: validateForm_ok blank_def pattern_test_no_terminator)

section \<open>The claims\<close>

text \<open>
  Claim C1. With a token present, when the request made by \<^verbatim>\<open>removeFromCart\<close>,
  \<^verbatim>\<open>updateQuantity\<close> or \<^verbatim>\<open>clearCart\<close> is rejected, the list is again the one held before the
  operation and the total is the sum of price times quantity over it; from a settled state the
  whole state, local storage included, is the one before the operation.
\<close>

theorem rollback_on_server_failure:
  assumes "tokenPresent token"
  shows "(\<forall>productId.
            cartItems (afterRejection (removeFromCart token (cartItems s) productId s)) = cartItems s \<and>
            totalPrice (afterRejection (removeFromCart token (cartItems s) productId s))
              = reduceTotal (cartItems s) \<and>
            (settled s \<longrightarrow> afterRejection (removeFromCart token (cartItems s) productId s) = s)) \<and>
         (\<forall>productId n.
            cartItems (afterRejection (updateQuantity token (cartItems s) productId n s)) = cartItems s \<and>
            totalPrice (afterRejection (updateQuantity token (cartItems s) productId n s))
              = reduceTotal (cartItems s) \<and>
            (settled s \<longrightarrow> afterRejection (updateQuantity token (cartItems s) productId n s) = s)) \<and>
         cartItems (afterRejection (clearCart token (cartItems s) s)) = cartItems s \<and>
         totalPrice (afterRejection (clearCart token (cartItems s) s)) = reduceTotal (cartItems s) \<and>
         (settled s \<longrightarrow> afterRejection (clearCart token (cartItems s) s) = s)"
proof -
  have rm: "cartItems (afterRejection (removeFromCart token (cartItems s) productId s)) = cartItems s \<and>
            totalPrice (afterRejection (removeFromCart token (cartItems s) productId s))
              = reduceTotal (cartItems s) \<and>
            (settled s \<longrightarrow> afterRejection (removeFromCart token (cartItems s) productId s) = s)"
    for productId
  proof -
    let ?r = "removeFromCart token (cartItems s) productId s"
    let ?p = "\<lparr>sent = DeleteItem productId, prevItems = cartItems s\<rparr>"
    have p: "snd ?r = Some ?p" using assms by (simp add: snd_removeFromCart)
    have st: "localStorage (fst ?r) = localStorage s" by (simp add: fst_removeFromCart)
    show ?thesis
      using afterRejection_fields(1,2)[OF p] afterRejection_settled[OF p _ _ st] by simp
  qed
  have up: "cartItems (afterRejection (updateQuantity token (cartItems s) productId n s)) = cartItems s \<and>
            totalPrice (afterRejection (updateQuantity token (cartItems s) productId n s))
              = reduceTotal (cartItems s) \<and>
            (settled s \<longrightarrow> afterRejection (updateQuantity token (cartItems s) productId n s) = s)"
    for productId n
  proof -
    let ?r = "updateQuantity token (cartItems s) productId n s"
    let ?p = "\<lparr>sent = (if n \<le> 0 then DeleteItem productId else PutItem productId),
               prevItems = cartItems s\<rparr>"
    have p: "snd ?r = Some ?p" using assms by (simp add: snd_updateQuantity)
    have st: "localStorage (fst ?r) = localStorage s"
      by (simp add: fst_updateQuantity fst_removeFromCart)
    show ?thesis
      using afterRejection_fields(1,2)[OF p] afterRejection_settled[OF p _ _ st] by simp
  qed
  have cl: "cartItems (afterRejection (clearCart token (cartItems s) s)) = cartItems s \<and>
         totalPrice (afterRejection (clearCart token (cartItems s) s)) = reduceTotal (cartItems s) \<and>
         (settled s \<longrightarrow> afterRejection (clearCart token (cartItems s) s) = s)"
  proof -
    let ?r = "clearCart token (cartItems s) s"
    let ?p = "\<lparr>sent = DeleteCart, prevItems = cartItems s\<rparr>"
    have p: "snd ?r = Some ?p" using assms by (simp add: snd_clearCart)
    have st: "localStorage (fst ?r) = localStorage s" using assms by (simp add: fst_clearCart)
    show ?thesis
      using afterRejection_fields(1,2)[OF p] afterRejection_settled[OF p _ _ st] by simp
  qed
  from rm up cl show ?thesis by blast
qed

theorem rollback_on_server_failure_witness:
  "tokenPresent (Some ''jwt'') \<and> settled exampleCart \<and>
   cartItems (fst (removeFromCart (Some ''jwt'') (cartItems exampleCart) (Num 1) exampleCart))
     \<noteq> cartItems exampleCart \<and>
   afterRejection (removeFromCart (Some ''jwt'') (cartItems exampleCart) (Num 1) exampleCart)
     = exampleCart \<and>
   afterRejection (updateQuantity (Some ''jwt'') (cartItems exampleCart) (Num 2) 5 exampleCart)
     = exampleCart \<and>
   afterRejection (clearCart (Some ''jwt'') (cartItems exampleCart) exampleCart) = exampleCart"
proof -
  have ch: "cartItems (fst (removeFromCart (Some ''jwt'') (cartItems exampleCart) (Num 1) exampleCart))
     \<noteq> cartItems exampleCart"
    by (simp add: fst_removeFromCart exampleCart_def exampleItems_def)
  from rollback_on_server_failure[OF tokenPresent_jwt, of exampleCart] settled_exampleCart
    tokenPresent_jwt ch
  show ?thesis by blast
qed

text \<open>
  Claim C2. Mounting loads the saved cart, if any. The reply of the server then replaces the
  list by the mapped server lines when a token is present, the reply carries a list of lines
  and the saved cart was absent or empty; a saved cart that is not empty is kept whatever the
  reply is, and without a token or without lines in the reply nothing changes.
\<close>

theorem mount_prefers_local_cart:
  "cartItems (mount store) = (case store ''cartItems'' of None \<Rightarrow> [] | Some t \<Rightarrow> JSON_parse t) \<and>
   (\<forall>t. store ''cartItems'' = Some t \<and> JSON_parse t \<noteq> [] \<longrightarrow>
        syncFromServer token r (mount store) = mount store \<and>
        cartItems (syncFromServer token r (mount store)) = JSON_parse t) \<and>
   (\<forall>items. tokenPresent token \<and> r = GetResolved (Some items) \<and>
        (store ''cartItems'' = None \<or> (\<exists>t. store ''cartItems'' = Some t \<and> JSON_parse t = [])) \<longrightarrow>
        syncFromServer token r (mount store) = (mount store)\<lparr>cartItems := map fromServer items\<rparr>) \<and>
   (\<not> tokenPresent token \<or> r = GetRejected \<or> r = GetResolved None \<longrightarrow>
        syncFromServer token r (mount store) = mount store)"
proof (intro conjI allI impI)
  show "cartItems (mount store) = (case store ''cartItems'' of None \<Rightarrow> [] | Some t \<Rightarrow> JSON_parse t)"
    by (rule mount_simps)
next
  fix t assume a: "store ''cartItems'' = Some t \<and> JSON_parse t \<noteq> []"
  then have c: "cartItems (mount store) = JSON_parse t" by (simp add: mount_simps)
  with a show "syncFromServer token r (mount store) = mount store"
    by (simp add: syncFromServer_cases mount_simps(3) JSON_stringify_def
          split: cart_reply.splits option.splits)
  then show "cartItems (syncFromServer token r (mount store)) = JSON_parse t"
    using c by simp
next
  fix items
  assume a: "tokenPresent token \<and> r = GetResolved (Some items) \<and>
        (store ''cartItems'' = None \<or> (\<exists>t. store ''cartItems'' = Some t \<and> JSON_parse t = []))"
  then have c: "cartItems (mount store) = []" by (auto simp add: mount_simps)
  with a show "syncFromServer token r (mount store) = (mount store)\<lparr>cartItems := map fromServer items\<rparr>"
    by (simp add: syncFromServer_cases mount_simps(3) JSON_stringify_def)
next
  assume "\<not> tokenPresent token \<or> r = GetRejected \<or> r = GetResolved None"
  then show "syncFromServer token r (mount store) = mount store"
    by (auto simp add: syncFromServer_cases split: cart_reply.splits option.splits)
qed

theorem mount_prefers_local_cart_witness:
  "cartItems (mount [''cartItems'' \<mapsto> JSON_stringify exampleItems]) = exampleItems \<and>
   exampleItems \<noteq> [] \<and>
   cartItems (syncFromServer (Some ''jwt'') (GetResolved (Some exampleServerItems))
      (mount [''cartItems'' \<mapsto> JSON_stringify exampleItems])) = exampleItems \<and>
   tokenPresent (Some ''jwt'') \<and>
   cartItems (syncFromServer (Some ''jwt'') (GetResolved (Some exampleServerItems))
      (mount (Map.empty :: string \<rightharpoonup> int json_text))) = map fromServer exampleServerItems \<and>
   cartItems (syncFromServer (Some ''jwt'') (GetResolved (Some exampleServerItems))
      (mount [''cartItems'' \<mapsto> JSON_stringify ([] :: int item list)])) = map fromServer exampleServerItems \<and>
   syncFromServer None (GetResolved (Some exampleServerItems)) (mount (Map.empty :: string \<rightharpoonup> int json_text))
     = mount Map.empty"
proof -
  have ne: "exampleItems \<noteq> []" by (simp add: exampleItems_def)
  have tk: "tokenPresent (Some ''jwt'')" by (simp add: tokenPresent_def)
  have nt: "\<not> tokenPresent None" by (simp add: tokenPresent_def)
  note a = mount_prefers_local_cart[of "[''cartItems'' \<mapsto> JSON_stringify exampleItems]"
      "Some ''jwt''" "GetResolved (Some exampleServerItems)"]
  note b = mount_prefers_local_cart[of "Map.empty :: string \<rightharpoonup> int json_text"
      "Some ''jwt''" "GetResolved (Some exampleServerItems)"]
  note c = mount_prefers_local_cart[of "[''cartItems'' \<mapsto> JSON_stringify ([] :: int item list)]"
      "Some ''jwt''" "GetResolved (Some exampleServerItems)"]
  note d = mount_prefers_local_cart[of "Map.empty :: string \<rightharpoonup> int json_text"
      None "GetResolved (Some exampleServerItems)"]
  from a ne have 1: "cartItems (mount [''cartItems'' \<mapsto> JSON_stringify exampleItems]) = exampleItems"
    "cartItems (syncFromServer (Some ''jwt'') (GetResolved (Some exampleServerItems))
      (mount [''cartItems'' \<mapsto> JSON_stringify exampleItems])) = exampleItems"
    by (simp_all add: JSON_stringify_def)
  from b tk have 2: "cartItems (syncFromServer (Some ''jwt'') (GetResolved (Some exampleServerItems))
      (mount (Map.empty :: string \<rightharpoonup> int json_text))) = map fromServer exampleServerItems"
    by simp
  from c tk have 3: "cartItems (syncFromServer (Some ''jwt'') (GetResolved (Some exampleServerItems))
      (mount [''cartItems'' \<mapsto> JSON_stringify ([] :: int item list)])) = map fromServer exampleServerItems"
    by (simp add: JSON_stringify_def)
  from d nt have 4: "syncFromServer None (GetResolved (Some exampleServerItems))
      (mount (Map.empty :: string \<rightharpoonup> int json_text)) = mount Map.empty"
    by simp
  from 1 2 3 4 ne tk show ?thesis by simp
qed


text \<open>
  Claim C4. \<^verbatim>\<open>validateForm\<close> should succeed exactly when the current password is not empty,
  the new password has length at least 8 and contains a lowercase letter, an uppercase letter
  and a digit, and the confirmation is not empty and equal to it. The password
  \<open>trickyPassword\<close> meets every condition, with an equal confirmation and a current password,
  and \<^verbatim>\<open>validateForm\<close> refuses it with the message that a letter or digit is missing: the dot
  of the pattern does not cross the line separator between the lowercase letters and the rest.
\<close>

theorem validateForm_rejects_line_separator:
  "goodPassword \<noteq> [] \<and> trickyPassword \<noteq> [] \<and> 8 \<le> length trickyPassword \<and>
   list_ex isLower trickyPassword \<and> list_ex isUpper trickyPassword \<and>
   list_ex isDigit trickyPassword \<and>
   fst (validateForm (filledForm goodPassword trickyPassword trickyPassword)) = False \<and>
   errors (snd (validateForm (filledForm goodPassword trickyPassword trickyPassword))) =
     [(''newPassword'',
       ''Password must contain at least one uppercase letter, one lowercase letter, and one number'')]"
  by (simp add: validateForm_def filledForm_def initialForm_def trickyPassword_def goodPassword_def
        blank_def isLower_def isUpper_def isDigit_def isLineTerminator_def Let_def)

text \<open>
  Claim C5. In every state in which the provider rests, from mounting on and after every
  change of the list, the key \<^verbatim>\<open>cartItems\<close> of local storage holds the serialization of the
  current list.
\<close>

theorem storage_mirrors_cart:
  "reachable s \<Longrightarrow> localStorage s ''cartItems'' = Some (JSON_stringify (cartItems s))"
  using reachable_settled[of s] by (simp add: settled_def)

theorem storage_mirrors_cart_witness:
  "reachable (rerender (fst (removeFromCart None exampleItems (Num 1)
      (mount [''cartItems'' \<mapsto> JSON_stringify exampleItems])))) \<and>
   localStorage (rerender (fst (removeFromCart None exampleItems (Num 1)
      (mount [''cartItems'' \<mapsto> JSON_stringify exampleItems])))) ''cartItems''
     = Some (JSON_stringify (tl exampleItems))"
proof -
  have r: "reachable (rerender (fst (removeFromCart None exampleItems (Num 1)
      (mount [''cartItems'' \<mapsto> JSON_stringify exampleItems]))))"
    by (rule reachable.removed) (rule reachable.mounted)
  have c: "cartItems (rerender (fst (removeFromCart None exampleItems (Num 1)
      (mount [''cartItems'' \<mapsto> JSON_stringify exampleItems])))) = tl exampleItems"
    by (simp add: rerender_simps fst_removeFromCart exampleItems_def)
  from r storage_mirrors_cart[OF r] c show ?thesis by simp
qed

text \<open>
  Claim C6. \<^verbatim>\<open>removeFromCart\<close>, before any reply of the server and with or without a token,
  sets the list to the previous list without the lines whose \<^verbatim>\<open>id\<close> is the given one, the
  other lines unchanged and in their order, and sets the total to the sum of price times
  quantity over that list.
\<close>

theorem removeFromCart_optimistic:
  "cartItems (fst (removeFromCart token (cartItems s) productId s))
     = filter (\<lambda>it. ident it \<noteq> productId) (cartItems s) \<and>
   totalPrice (fst (removeFromCart token (cartItems s) productId s))
     = reduceTotal (filter (\<lambda>it. ident it \<noteq> productId) (cartItems s)) \<and>
   localStorage (fst (removeFromCart token (cartItems s) productId s)) = localStorage s"
  by (simp add: fst_removeFromCart)

text \<open>
  Claim C7. For every form that passes \<^verbatim>\<open>validateForm\<close>, \<^verbatim>\<open>handleSubmit\<close> ends with the
  success message set, the three fields empty, the loading flag off and the error message
  empty: the error branch is not taken. The handler sends no request.
\<close>

theorem handleSubmit_always_succeeds:
  "fst (validateForm s) \<Longrightarrow>
     f_success (handleSubmit s) = ''Password changed successfully!'' \<and>
     formData (handleSubmit s) =
       [(''currentPassword'', []), (''newPassword'', []), (''confirmPassword'', [])] \<and>
     f_error (handleSubmit s) = [] \<and>
     f_loading (handleSubmit s) = False \<and>
     errors (handleSubmit s) = []"
proof -
  assume ok: "fst (validateForm s)"
  let ?s1 = "s\<lparr>f_error := [], f_success := []\<rparr>"
  obtain b s2 where v: "validateForm ?s1 = (b, s2)" by (cases "validateForm ?s1")
  have "fst (validateForm ?s1) = fst (validateForm s)"
    by (simp add: validateForm_def Let_def)
  with ok v have b: "b" by simp
  have "errors (snd (validateForm ?s1)) = []"
    using b v validateForm_errors_empty[of ?s1] by simp
  with v have e: "errors s2 = []" by simp
  have "f_error (snd (validateForm ?s1)) = []"
    by (simp add: validateForm_def Let_def)
  with v have f: "f_error s2 = []" by simp
  have "handleSubmit s =
          s2\<lparr>f_loading := True, f_success := ''Password changed successfully!'',
             formData := [(''currentPassword'', []), (''newPassword'', []),
                          (''confirmPassword'', [])],
             f_loading := False\<rparr>"
    using b by (simp add: handleSubmit_def simulatedChange_def Let_def v)
  with e f show ?thesis by simp
qed

theorem handleSubmit_always_succeeds_witness:
  "fst (validateForm (filledForm goodPassword goodPassword goodPassword)) \<and>
   f_success (handleSubmit (filledForm goodPassword goodPassword goodPassword))
     = ''Password changed successfully!'' \<and>
   formData (handleSubmit (filledForm goodPassword goodPassword goodPassword)) =
       [(''currentPassword'', []), (''newPassword'', []), (''confirmPassword'', [])] \<and>
   f_error (handleSubmit (filledForm goodPassword goodPassword goodPassword)) = []"
proof -
  have ok: "fst (validateForm (filledForm goodPassword goodPassword goodPassword))"
    by (simp add: validateForm_def filledForm_def initialForm_def goodPassword_def
        blank_def isLower_def isUpper_def isDigit_def isLineTerminator_def Let_def)
  from ok handleSubmit_always_succeeds[OF ok] show ?thesis by simp
qed

text \<open>
  Claim C8. \<^verbatim>\<open>checkout\<close> rejects with \<^verbatim>\<open>Cart is empty\<close> exactly when the list is empty, and
  then leaves the state alone; for every other list it resolves with the success object and
  has run \<^verbatim>\<open>clearCart\<close>, so that the list is empty and the total 0. With a token
  \<^verbatim>\<open>clearCart\<close> leaves its request pending; a later rejection of that request is the event
  of claim C1 and comes after the promise of \<^verbatim>\<open>checkout\<close> has resolved.
\<close>

theorem checkout_outcome:
  "(fst (checkout token (cartItems s) s) = Inl ''Cart is empty'' \<longleftrightarrow> cartItems s = []) \<and>
   (cartItems s = [] \<longrightarrow> checkout token (cartItems s) s = (Inl ''Cart is empty'', s, None)) \<and>
   (cartItems s \<noteq> [] \<longrightarrow>
      fst (checkout token (cartItems s) s)
        = Inr \<lparr>success = True, message = ''Checkout successful!''\<rparr> \<and>
      snd (checkout token (cartItems s) s) = clearCart token (cartItems s) s \<and>
      cartItems (fst (snd (checkout token (cartItems s) s))) = [] \<and>
      totalPrice (fst (snd (checkout token (cartItems s) s))) = 0 \<and>
      cartItems (rerender (fst (snd (checkout token (cartItems s) s)))) = [])"
  by (simp add: checkout_def fst_clearCart rerender_simps)

theorem checkout_outcome_witness:
  "cartItems exampleCart \<noteq> [] \<and>
   fst (checkout None (cartItems exampleCart) exampleCart)
     = Inr \<lparr>success = True, message = ''Checkout successful!''\<rparr> \<and>
   cartItems (fst (snd (checkout None (cartItems exampleCart) exampleCart))) = [] \<and>
   cartItems (mount (Map.empty :: string \<rightharpoonup> int json_text)) = [] \<and>
   checkout None (cartItems (mount (Map.empty :: string \<rightharpoonup> int json_text))) (mount Map.empty)
     = (Inl ''Cart is empty'', mount Map.empty, None)"
proof -
  have ne: "cartItems exampleCart \<noteq> []" by (simp add: exampleCart_def exampleItems_def)
  have e: "cartItems (mount (Map.empty :: string \<rightharpoonup> int json_text)) = []"
    by (simp add: mount_simps)
  note a = checkout_outcome[of None exampleCart]
  note b = checkout_outcome[of None "mount (Map.empty :: string \<rightharpoonup> int json_text)"]
  from a ne have 1: "fst (checkout None (cartItems exampleCart) exampleCart)
     = Inr \<lparr>success = True, message = ''Checkout successful!''\<rparr>"
    and 2: "cartItems (fst (snd (checkout None (cartItems exampleCart) exampleCart))) = []"
    by blast+
  from b e have 3: "checkout None (cartItems (mount (Map.empty :: string \<rightharpoonup> int json_text)))
     (mount Map.empty) = (Inl ''Cart is empty'', mount Map.empty, None)"
    by blast
  from ne 1 2 e 3 show ?thesis by blast
qed

text \<open>
  Claim C9. \<^verbatim>\<open>updateQuantity\<close> with a quantity that is not positive is
  \<^verbatim>\<open>removeFromCart\<close> with the same identifier. In the path of \<^verbatim>\<open>addToCart\<close> without a
  token, when the product is in the cart and its quantity plus the added one is not positive,
  the list becomes the one \<^verbatim>\<open>removeFromCart\<close> gives: no line with that identifier is left.
\<close>

theorem nonpositive_quantity_removes:
  "(n \<le> 0 \<longrightarrow>
      updateQuantity token closure productId n s = removeFromCart token closure productId s) \<and>
   (\<not> tokenPresent token \<and> find (\<lambda>it. ident it = p_id product) (cartItems s) = Some e \<and>
    quantity e + q \<le> 0 \<longrightarrow>
      cartItems (fst (addToCart token (cartItems s) product (Some q) r s))
        = filter (\<lambda>it. ident it \<noteq> p_id product) (cartItems s) \<and>
      cartItems (fst (addToCart token (cartItems s) product (Some q) r s))
        = cartItems (fst (removeFromCart token (cartItems s) (p_id product) s)) \<and>
      \<not> (\<exists>it \<in> set (cartItems (fst (addToCart token (cartItems s) product (Some q) r s))).
            ident it = p_id product))"
proof (intro conjI impI)
  assume "n \<le> 0"
  then show "updateQuantity token closure productId n s = removeFromCart token closure productId s"
    by (simp add: updateQuantity_def)
next
  assume a: "\<not> tokenPresent token \<and> find (\<lambda>it. ident it = p_id product) (cartItems s) = Some e \<and>
    quantity e + q \<le> 0"
  then have eq: "fst (addToCart token (cartItems s) product (Some q) r s) =
      updateTotalPrice (cartItems s) (fst (removeFromCart token (cartItems s) (p_id product) s))"
    by (simp add: addToCart_def fst_addToCart_local_remove)
  show "cartItems (fst (addToCart token (cartItems s) product (Some q) r s))
        = filter (\<lambda>it. ident it \<noteq> p_id product) (cartItems s)"
    by (simp add: eq updateTotalPrice_def fst_removeFromCart)
  show "cartItems (fst (addToCart token (cartItems s) product (Some q) r s))
        = cartItems (fst (removeFromCart token (cartItems s) (p_id product) s))"
    by (simp add: eq updateTotalPrice_def)
  show "\<not> (\<exists>it \<in> set (cartItems (fst (addToCart token (cartItems s) product (Some q) r s))).
            ident it = p_id product)"
    by (simp add: eq updateTotalPrice_def fst_removeFromCart)
qed

theorem nonpositive_quantity_removes_witness:
  "(0::int) \<le> 0 \<and>
   updateQuantity None exampleItems (Num 1) 0 exampleCart
     = removeFromCart None exampleItems (Num 1) exampleCart \<and>
   \<not> tokenPresent None \<and>
   find (\<lambda>it. ident it = p_id exampleProduct) (cartItems exampleCart) = Some (hd exampleItems) \<and>
   quantity (hd exampleItems) + (- 2) \<le> 0 \<and>
   cartItems (fst (addToCart None (cartItems exampleCart) exampleProduct (Some (- 2)) Resolved
      exampleCart)) = tl exampleItems"
proof -
  have z: "(0::int) \<le> 0" by simp
  have nt: "\<not> tokenPresent None" by (simp add: tokenPresent_def)
  have f: "find (\<lambda>it. ident it = p_id exampleProduct) (cartItems exampleCart)
             = Some (hd exampleItems)"
    by (simp add: exampleCart_def exampleItems_def exampleProduct_def)
  have q: "quantity (hd exampleItems) + (- 2) \<le> 0"
    by (simp add: exampleItems_def)
  have fl: "filter (\<lambda>it. ident it \<noteq> p_id exampleProduct) (cartItems exampleCart) = tl exampleItems"
    by (simp add: exampleCart_def exampleItems_def exampleProduct_def)
  from nonpositive_quantity_removes[of "0::int" None exampleItems "Num 1" exampleCart
      exampleProduct "hd exampleItems" "- 2" Resolved] z nt f q fl
  show ?thesis by simp
qed

text \<open>
  Claim C10. \<^verbatim>\<open>handleChange\<close> for the field \<open>n\<close> sets \<^verbatim>\<open>formData[n]\<close> to the new value and,
  when a message is recorded for \<open>n\<close>, sets \<^verbatim>\<open>errors[n]\<close> to the empty string; every other
  field of \<^verbatim>\<open>formData\<close> and of \<^verbatim>\<open>errors\<close> and the other cells of the form are unchanged.
\<close>

theorem handleChange_frame:
  "map_of (formData (handleChange n v s)) n = Some v \<and>
   (\<forall>m. m \<noteq> n \<longrightarrow>
      map_of (formData (handleChange n v s)) m = map_of (formData s) m \<and>
      map_of (errors (handleChange n v s)) m = map_of (errors s) m) \<and>
   ((\<exists>msg. map_of (errors s) n = Some msg \<and> msg \<noteq> []) \<longrightarrow>
      map_of (errors (handleChange n v s)) n = Some []) \<and>
   (\<not> (\<exists>msg. map_of (errors s) n = Some msg \<and> msg \<noteq> []) \<longrightarrow>
      errors (handleChange n v s) = errors s) \<and>
   f_loading (handleChange n v s) = f_loading s \<and>
   f_success (handleChange n v s) = f_success s \<and>
   f_error (handleChange n v s) = f_error s"
  by (auto simp add: handleChange_def Let_def update_conv' split: option.splits)

theorem handleChange_frame_witness:
  "''confirmPassword'' \<noteq> ''newPassword'' \<and>
   map_of (errors (snd (validateForm initialForm))) ''newPassword''
     = Some ''New password is required'' \<and>
   map_of (formData (handleChange ''newPassword'' goodPassword (snd (validateForm initialForm))))
     ''newPassword'' = Some goodPassword \<and>
   map_of (errors (handleChange ''newPassword'' goodPassword (snd (validateForm initialForm))))
     ''newPassword'' = Some [] \<and>
   map_of (errors (handleChange ''newPassword'' goodPassword (snd (validateForm initialForm))))
     ''confirmPassword'' = Some ''Please confirm your new password'' \<and>
   map_of (formData (handleChange ''newPassword'' goodPassword (snd (validateForm initialForm))))
     ''confirmPassword'' = Some [] \<and>
   errors (handleChange ''newPassword'' goodPassword initialForm) = errors initialForm"
proof -
  have d: "''confirmPassword'' \<noteq> ''newPassword''" by simp
  have e: "map_of (errors (snd (validateForm initialForm))) ''newPassword''
     = Some ''New password is required''"
    "map_of (errors (snd (validateForm initialForm))) ''confirmPassword''
     = Some ''Please confirm your new password''"
    "map_of (formData (snd (validateForm initialForm))) ''confirmPassword'' = Some []"
    by (simp_all add: validateForm_def initialForm_def blank_def Let_def)
  have n: "\<not> (\<exists>msg. map_of (errors initialForm) ''newPassword'' = Some msg \<and> msg \<noteq> [])"
    by (simp add: initialForm_def)
  from handleChange_frame[of "''newPassword''" goodPassword "snd (validateForm initialForm)"]
    handleChange_frame[of "''newPassword''" goodPassword initialForm] d e n
  show ?thesis by simp
qed

end
